theory Spec2Isabelle
  imports Complex_Main "HOL-Library.Sublist"
begin

section \<open>EcoStep: the calculation core of the carbon footprint dashboard\<close>

text \<open>
  The embedding follows the section CALCULATION of \<^verbatim>\<open>src/04-merged.py\<close> (lines 58 to 155).
  Python's \<^verbatim>\<open>float\<close> values are modelled as \<^typ>\<open>real\<close>: the arithmetic is the exact
  one, without the rounding of binary floating point and without infinities or NaN.
  A Python \<^verbatim>\<open>str\<close> is a \<^typ>\<open>string\<close>; a \<^verbatim>\<open>dict\<close> that is iterated is an association
  list in insertion order, a \<^verbatim>\<open>dict\<close> that is only read is a map.
\<close>

subsection \<open>Constants\<close>

definition PETROL_FACTOR :: real where
  "PETROL_FACTOR = 2.06916"

definition DIESEL_FACTOR :: real where
  "DIESEL_FACTOR = 2.57082"

definition GRID_FACTOR :: real where
  "GRID_FACTOR = 0.43"

definition APPLIANCE_KW :: "(string \<times> real) list" where
  "APPLIANCE_KW =
     [(''AC (1.5 Ton)'', 1.50),
      (''TV (LED)'', 0.10),
      (''Laptop'', 0.05),
      (''Lights (LED)'', 0.01)]"

definition DIET_FACTORS :: "(string \<times> real) list" where
  "DIET_FACTORS =
     [(''High Meat (Beef / Lamb)'', 8.0),
      (''Mixed (Poultry / Fish)'', 4.0),
      (''Vegetarian / Vegan (Plant-based)'', 1.5)]"

definition TREE_DAILY_ABS :: real where
  "TREE_DAILY_ABS = 0.057"

definition PHONE_CHARGE_KG :: real where
  "PHONE_CHARGE_KG = 0.008"

definition KM_CAR_FACTOR :: real where
  "KM_CAR_FACTOR = 0.170"

definition GRADE_LOW :: real where
  "GRADE_LOW = 12.0"

definition GRADE_HIGH :: real where
  "GRADE_HIGH = 50.0"

subsection \<open>Python primitives used by the core\<close>

datatype py_error = KeyError string

text \<open>\<^verbatim>\<open>needle in hay\<close> on strings: \<open>needle\<close> occurs in \<open>hay\<close> as a contiguous run.\<close>

fun starts_with :: "string \<Rightarrow> string \<Rightarrow> bool" where
  "starts_with [] hay = True"
| "starts_with (c # cs) [] = False"
| "starts_with (c # cs) (h # hs) = (c = h \<and> starts_with cs hs)"

fun str_in :: "string \<Rightarrow> string \<Rightarrow> bool" where
  "str_in needle [] = starts_with needle []"
| "str_in needle (h # hs) = (starts_with needle (h # hs) \<or> str_in needle hs)"

text \<open>\<^verbatim>\<open>d[k]\<close> raises \<^verbatim>\<open>KeyError(k)\<close> when the key is absent.\<close>

definition subscript :: "(string \<rightharpoonup> real) \<Rightarrow> string \<Rightarrow> py_error + real" where
  "subscript d k = (case d k of None \<Rightarrow> Inl (KeyError k) | Some v \<Rightarrow> Inr v)"

text \<open>
  \<^verbatim>\<open>max([x, ...], key=f)\<close> on a list that is not empty: the running maximum starts
  as the first element and is replaced only by an element whose key is strictly
  greater, so of several maximal elements the first one is returned.
\<close>

fun max_loop :: "('a \<Rightarrow> real) \<Rightarrow> 'a \<Rightarrow> 'a list \<Rightarrow> 'a" where
  "max_loop f best [] = best"
| "max_loop f best (x # xs) = max_loop f (if f x > f best then x else best) xs"

subsection \<open>The leaf functions\<close>

definition calc_transport :: "string \<Rightarrow> real \<Rightarrow> real" where
  "calc_transport fuel_type litres =
     (if str_in ''Petrol'' fuel_type then litres * PETROL_FACTOR
      else if str_in ''Diesel'' fuel_type then litres * DIESEL_FACTOR
      else 0.0)"

text \<open>
  \<^verbatim>\<open>sum(hours[a] * APPLIANCE_KW[a] for a in APPLIANCE_KW)\<close>: the generator is consumed
  in the order of the table, starting from 0; the first absent key of \<open>hours\<close> raises and
  ends the sum.
\<close>

fun sum_hours :: "(string \<rightharpoonup> real) \<Rightarrow> real \<Rightarrow> (string \<times> real) list \<Rightarrow> py_error + real" where
  "sum_hours hours acc [] = Inr acc"
| "sum_hours hours acc ((a, kw) # rest) =
     (case subscript hours a of
        Inl e \<Rightarrow> Inl e
      | Inr h \<Rightarrow> sum_hours hours (acc + h * kw) rest)"

definition calc_electricity :: "(string \<rightharpoonup> real) \<Rightarrow> py_error + (real \<times> real)" where
  "calc_electricity hours =
     (case sum_hours hours 0 APPLIANCE_KW of
        Inl e \<Rightarrow> Inl e
      | Inr kwh \<Rightarrow> Inr (kwh, kwh * GRID_FACTOR))"

definition calc_diet :: "string \<Rightarrow> real" where
  "calc_diet choice = (case map_of DIET_FACTORS choice of None \<Rightarrow> 0.0 | Some v \<Rightarrow> v)"

subsection \<open>Aggregation\<close>

record totals =
  transport :: real
  electricity :: real
  diet :: real
  total :: real
  monthly :: real
  trees :: real
  phones :: real
  km_eq :: real
  grade :: string
  badge :: string
  badge_color :: string
  dominant :: string

definition grade_of :: "real \<Rightarrow> string \<times> string \<times> string" where
  "grade_of t =
     (if t < GRADE_LOW then (''Low'', ''Excellent'', ''#10b981'')
      else if t \<le> GRADE_HIGH then (''Moderate'', ''Good'', ''#f59e0b'')
      else (''High'', ''Needs Work'', ''#ef4444''))"

definition dominant_of :: "real \<Rightarrow> real \<Rightarrow> real \<Rightarrow> string" where
  "dominant_of tr el di =
     fst (max_loop snd (''Transport'', tr) [(''Electricity'', el), (''Diet'', di)])"

definition calc_totals :: "real \<Rightarrow> real \<Rightarrow> real \<Rightarrow> totals" where
  "calc_totals tr el di =
     (let tot = tr + el + di;
          mon = tot * 30;
          tre = (if tot > 0 then tot / TREE_DAILY_ABS else 0);
          pho = (if tot > 0 then tot / PHONE_CHARGE_KG else 0);
          km = (if tot > 0 then tot / KM_CAR_FACTOR else 0);
          (g, b, bc) = grade_of tot;
          winner = dominant_of tr el di
      in \<lparr>transport = tr, electricity = el, diet = di, total = tot,
           monthly = mon, trees = tre, phones = pho, km_eq = km,
           grade = g, badge = b, badge_color = bc, dominant = winner\<rparr>)"

text \<open>
  \<^verbatim>\<open>tips.get(dominant)\<close>: the pair stored under the key, \<^verbatim>\<open>None\<close> for any other key.
  The icons are empty strings in the source; the texts are given in UTF-8.
\<close>

definition tips :: "(string \<times> (string \<times> string)) list" where
  "tips =
     [(''Transport'',
        ('''',
         ''Your biggest footprint driver is **Transport**. Switching just '' @
         ''2 days/week to public transit or cycling can cut your transport '' @
         ''emissions by up to **40%**.'')),
      (''Electricity'',
        ('''',
         ''Your biggest driver is **Energy Use**. Raising your AC thermostat '' @
         ''by 2 '' @ [CHR 0xC2, CHR 0xB0] @ ''C and switching to LED bulbs could reduce your '' @
         ''electricity emissions significantly.'')),
      (''Diet'',
        ('''',
         ''Your biggest driver is **Diet**. One meat-free day per week saves '' @
         ''roughly **0.5 tonnes CO'' @ [CHR 0xE2, CHR 0x82, CHR 0x82] @ ''e/year** '' @
         [CHR 0xE2, CHR 0x80, CHR 0x94] @ '' equivalent to planting 9 trees.''))]"

definition smart_tip :: "string \<Rightarrow> (string \<times> string) option" where
  "smart_tip category = map_of tips category"

subsection \<open>Inputs used as examples\<close>

text \<open>The keys of \<^verbatim>\<open>APPLIANCE_KW\<close>, in the order the generator visits them.\<close>

definition appliances :: "string list" where
  "appliances = map fst APPLIANCE_KW"

text \<open>
  The hours the session starts with (\<^verbatim>\<open>initialize_session_state\<close>), under the keys the
  input form gives them, and a dictionary without the entry of the air conditioner.
\<close>

definition default_hours :: "string \<rightharpoonup> real" where
  "default_hours =
     map_of [(''AC (1.5 Ton)'', 2.0), (''TV (LED)'', 2.0), (''Laptop'', 4.0), (''Lights (LED)'', 3.0)]"

definition partial_hours :: "string \<rightharpoonup> real" where
  "partial_hours = map_of [(''TV (LED)'', 1.0), (''Laptop'', 2.0), (''Lights (LED)'', 10.0)]"

section \<open>Properties\<close>

subsection \<open>Substring test\<close>

text \<open>The test agrees with the contiguous-sublist relation of the library.\<close>

lemma starts_with_prefix: "starts_with n h = prefix n h"
  by (induction n h rule: starts_with.induct) auto

lemma str_in_sublist: "str_in n h = sublist n h"
  by (induction h) (auto simp: starts_with_prefix sublist_Cons_right)

lemma petrol_in_petrol: "str_in ''Petrol'' ''Petrol''"
  by simp

lemma diesel_in_diesel: "str_in ''Diesel'' ''Diesel''"
  by simp

lemma petrol_not_in_diesel: "\<not> str_in ''Petrol'' ''Diesel''"
  by simp

lemma petrol_not_in_none: "\<not> str_in ''Petrol'' ''None (EV / Walk / Cycle)''"
  by simp

lemma diesel_not_in_none: "\<not> str_in ''Diesel'' ''None (EV / Walk / Cycle)''"
  by simp

subsection \<open>Fields of the result of \<open>calc_totals\<close>\<close>

lemma total_calc_totals: "total (calc_totals tr el di) = tr + el + di"
  by (simp add: calc_totals_def Let_def split: prod.splits)

lemma monthly_calc_totals: "monthly (calc_totals tr el di) = (tr + el + di) * 30"
  by (simp add: calc_totals_def Let_def split: prod.splits)

lemma trees_calc_totals:
  "trees (calc_totals tr el di) = (if tr + el + di > 0 then (tr + el + di) / TREE_DAILY_ABS else 0)"
  by (simp add: calc_totals_def Let_def split: prod.splits)

lemma phones_calc_totals:
  "phones (calc_totals tr el di) = (if tr + el + di > 0 then (tr + el + di) / PHONE_CHARGE_KG else 0)"
  by (simp add: calc_totals_def Let_def split: prod.splits)

lemma km_eq_calc_totals:
  "km_eq (calc_totals tr el di) = (if tr + el + di > 0 then (tr + el + di) / KM_CAR_FACTOR else 0)"
  by (simp add: calc_totals_def Let_def split: prod.splits)

lemmas equivalents_calc_totals = trees_calc_totals phones_calc_totals km_eq_calc_totals
  TREE_DAILY_ABS_def PHONE_CHARGE_KG_def KM_CAR_FACTOR_def

lemma grade_calc_totals: "grade (calc_totals tr el di) = fst (grade_of (tr + el + di))"
  by (simp add: calc_totals_def Let_def split: prod.splits)

lemma dominant_calc_totals: "dominant (calc_totals tr el di) = dominant_of tr el di"
  by (simp add: calc_totals_def Let_def split: prod.splits)

subsection \<open>Grade\<close>

text \<open>
  C1: the grade is a three-band classification of the total that \<open>calc_totals\<close> computes:
  below 12.0 it is Low, from 12.0 to 50.0 (both included) it is Moderate, above 50.0 it is
  High. The witness evaluates the four boundary totals 11.999999, 12.0, 50.0 and 50.000001.
\<close>

theorem calc_totals_grade:
  "(total (calc_totals tr el di) < 12.0 \<longrightarrow> grade (calc_totals tr el di) = ''Low'')
   \<and> (12.0 \<le> total (calc_totals tr el di) \<and> total (calc_totals tr el di) \<le> 50.0
        \<longrightarrow> grade (calc_totals tr el di) = ''Moderate'')
   \<and> (total (calc_totals tr el di) > 50.0 \<longrightarrow> grade (calc_totals tr el di) = ''High'')"
  by (simp add: total_calc_totals grade_calc_totals grade_of_def GRADE_LOW_def GRADE_HIGH_def)

theorem calc_totals_grade_witness:
  "total (calc_totals 11.999999 0 0) = 11.999999 \<and> grade (calc_totals 11.999999 0 0) = ''Low''
   \<and> total (calc_totals 12.0 0 0) = 12.0 \<and> grade (calc_totals 12.0 0 0) = ''Moderate''
   \<and> total (calc_totals 50.0 0 0) = 50.0 \<and> grade (calc_totals 50.0 0 0) = ''Moderate''
   \<and> total (calc_totals 50.000001 0 0) = 50.000001 \<and> grade (calc_totals 50.000001 0 0) = ''High''"
  using calc_totals_grade [of "11.999999" 0 0] calc_totals_grade [of "12.0" 0 0]
    calc_totals_grade [of "50.0" 0 0] calc_totals_grade [of "50.000001" 0 0]
  by (simp add: total_calc_totals)

subsection \<open>Totals and context equivalents\<close>

text \<open>
  C2: for all inputs, the total is the sum of the three inputs, the monthly figure is the
  total times 30, and the three context equivalents are the total divided by 0.057, 0.008
  and 0.170 when the total is positive, and 0 when the total is at most 0.
\<close>

theorem calc_totals_arithmetic:
  "total (calc_totals tr el di) = tr + el + di
   \<and> monthly (calc_totals tr el di) = total (calc_totals tr el di) * 30
   \<and> (total (calc_totals tr el di) > 0 \<longrightarrow>
        trees (calc_totals tr el di) = total (calc_totals tr el di) / 0.057
        \<and> phones (calc_totals tr el di) = total (calc_totals tr el di) / 0.008
        \<and> km_eq (calc_totals tr el di) = total (calc_totals tr el di) / 0.170)
   \<and> (total (calc_totals tr el di) \<le> 0 \<longrightarrow>
        trees (calc_totals tr el di) = 0
        \<and> phones (calc_totals tr el di) = 0
        \<and> km_eq (calc_totals tr el di) = 0)"
  by (simp add: total_calc_totals monthly_calc_totals equivalents_calc_totals)

theorem calc_totals_arithmetic_witness:
  "total (calc_totals 0.057 0.008 0.170) = 0.235
   \<and> monthly (calc_totals 0.057 0.008 0.170) = 7.05
   \<and> trees (calc_totals 0.057 0.008 0.170) = 0.235 / 0.057
   \<and> phones (calc_totals 0.057 0.008 0.170) = 0.235 / 0.008
   \<and> km_eq (calc_totals 0.057 0.008 0.170) = 0.235 / 0.170
   \<and> total (calc_totals (- 3) 1 1.5) = - 0.5
   \<and> trees (calc_totals (- 3) 1 1.5) = 0
   \<and> phones (calc_totals (- 3) 1 1.5) = 0
   \<and> km_eq (calc_totals (- 3) 1 1.5) = 0"
  using calc_totals_arithmetic [of "0.057" "0.008" "0.170"]
    calc_totals_arithmetic [of "- 3" 1 "1.5"]
  by (simp add: total_calc_totals)

subsection \<open>Dominant category\<close>

text \<open>
  C3: the dominant category is the first one, in the order Transport, Electricity, Diet,
  whose value equals the maximum of the three; so a category whose value is strictly
  larger than the other two is the dominant one, and three equal values of 5 give
  Transport.
\<close>

theorem dominant_first_maximum:
  "dominant (calc_totals tr el di) =
     (if tr = max tr (max el di) then ''Transport''
      else if el = max tr (max el di) then ''Electricity''
      else ''Diet'')
   \<and> (el < tr \<and> di < tr \<longrightarrow> dominant (calc_totals tr el di) = ''Transport'')
   \<and> (tr < el \<and> di < el \<longrightarrow> dominant (calc_totals tr el di) = ''Electricity'')
   \<and> (tr < di \<and> el < di \<longrightarrow> dominant (calc_totals tr el di) = ''Diet'')
   \<and> dominant (calc_totals 5 5 5) = ''Transport''"
  by (auto simp add: dominant_calc_totals dominant_of_def max_def)

theorem dominant_first_maximum_witness:
  "dominant (calc_totals 5 5 5) = ''Transport''
   \<and> dominant (calc_totals 3 1 2) = ''Transport''
   \<and> dominant (calc_totals 1 3 2) = ''Electricity''
   \<and> dominant (calc_totals 1 2 3) = ''Diet''
   \<and> dominant (calc_totals 1 3 3) = ''Electricity''"
  using dominant_first_maximum [of 5 5 5] dominant_first_maximum [of 3 1 2]
    dominant_first_maximum [of 1 3 2] dominant_first_maximum [of 1 2 3]
    dominant_first_maximum [of 1 3 3]
  by simp

subsection \<open>Transport\<close>

text \<open>
  C4: for every litres value \<open>L\<close>, negative and out-of-range values included,
  \<open>calc_transport\<close> returns \<open>L * 2.06916\<close> for the option Petrol, \<open>L * 2.57082\<close> for the
  option Diesel and 0 for the option None (EV / Walk / Cycle). The three fuel kinds are
  the three strings the selection box offers.
\<close>

theorem calc_transport_options:
  "calc_transport ''Petrol'' L = L * 2.06916
   \<and> calc_transport ''Diesel'' L = L * 2.57082
   \<and> calc_transport ''None (EV / Walk / Cycle)'' L = 0"
  unfolding calc_transport_def PETROL_FACTOR_def DIESEL_FACTOR_def
  using petrol_in_petrol diesel_in_diesel petrol_not_in_diesel
    petrol_not_in_none diesel_not_in_none
  by simp

text \<open>
  C8 as stated fails: a fuel-kind string that is none of the three options is still
  charged at the petrol factor when it contains the word Petrol.
\<close>

theorem calc_transport_premium_counterexample:
  "''Premium Petrol'' \<noteq> ''Petrol''
   \<and> ''Premium Petrol'' \<noteq> ''Diesel''
   \<and> ''Premium Petrol'' \<noteq> ''None (EV / Walk / Cycle)''
   \<and> calc_transport ''Premium Petrol'' 1 = 2.06916
   \<and> calc_transport ''Premium Petrol'' 1 \<noteq> 0"
  by (simp add: calc_transport_def PETROL_FACTOR_def)

text \<open>
  C8, amended: for every fuel-kind string that contains neither \<^verbatim>\<open>Petrol\<close> nor
  \<^verbatim>\<open>Diesel\<close> as a substring, and every litres value, \<open>calc_transport\<close> returns 0.
\<close>

theorem calc_transport_unrecognized:
  "\<not> sublist ''Petrol'' fuel_type \<Longrightarrow> \<not> sublist ''Diesel'' fuel_type \<Longrightarrow>
   calc_transport fuel_type litres = 0"
  by (simp add: calc_transport_def str_in_sublist)

theorem calc_transport_unrecognized_witness:
  "\<not> sublist ''Petrol'' ''Hydrogen'' \<and> \<not> sublist ''Diesel'' ''Hydrogen''
   \<and> calc_transport ''Hydrogen'' 7.5 = 0"
proof -
  have p: "\<not> sublist ''Petrol'' ''Hydrogen''"
    unfolding str_in_sublist [symmetric] by simp
  have d: "\<not> sublist ''Diesel'' ''Hydrogen''"
    unfolding str_in_sublist [symmetric] by simp
  show ?thesis
    using p d calc_transport_unrecognized [OF p d, of "7.5"] by simp
qed

subsection \<open>Electricity\<close>

lemma appliances_eq:
  "appliances = [''AC (1.5 Ton)'', ''TV (LED)'', ''Laptop'', ''Lights (LED)'']"
  by (simp add: appliances_def APPLIANCE_KW_def)

lemma sum_hours_complete:
  "\<forall>a \<in> set (map fst tbl). hours a \<noteq> None \<Longrightarrow> \<exists>kwh. sum_hours hours acc tbl = Inr kwh"
  by (induction tbl arbitrary: acc) (auto simp: subscript_def split: option.splits)

lemma sum_hours_missing:
  "find (\<lambda>a. hours a = None) (map fst tbl) = Some a \<Longrightarrow>
   sum_hours hours acc tbl = Inl (KeyError a)"
  by (induction tbl arbitrary: acc) (auto simp: subscript_def split: option.splits if_splits)

lemma find_missing:
  "\<exists>a \<in> set ks. hours a = None \<Longrightarrow> \<exists>a. find (\<lambda>a. hours a = None) ks = Some a"
  by (induction ks) auto

lemma calc_electricity_missing:
  "find (\<lambda>a. hours a = None) appliances = Some a \<Longrightarrow>
   calc_electricity hours = Inl (KeyError a)"
  by (simp add: calc_electricity_def appliances_def sum_hours_missing)

lemma calc_electricity_returns:
  "\<forall>a \<in> set appliances. hours a \<noteq> None \<Longrightarrow>
   \<exists>kwh. calc_electricity hours = Inr (kwh, kwh * GRID_FACTOR)"
  using sum_hours_complete [of APPLIANCE_KW hours 0]
  by (auto simp: calc_electricity_def appliances_def)

text \<open>
  C5: for every hours dictionary that holds the four appliance names, \<open>calc_electricity\<close>
  returns the pair of the sum of hours times power draw (1.50, 0.10, 0.05 and 0.01 kWh
  per hour) and that sum times 0.43. The witness is the session's default input.
\<close>

theorem calc_electricity_complete:
  assumes "hours ''AC (1.5 Ton)'' = Some ac"
    and "hours ''TV (LED)'' = Some tv"
    and "hours ''Laptop'' = Some laptop"
    and "hours ''Lights (LED)'' = Some lights"
  shows "calc_electricity hours =
           Inr (ac * 1.50 + tv * 0.10 + laptop * 0.05 + lights * 0.01,
                (ac * 1.50 + tv * 0.10 + laptop * 0.05 + lights * 0.01) * 0.43)"
  using assms
  by (simp add: calc_electricity_def APPLIANCE_KW_def subscript_def GRID_FACTOR_def)

theorem calc_electricity_complete_witness:
  "default_hours ''AC (1.5 Ton)'' = Some 2
   \<and> default_hours ''TV (LED)'' = Some 2
   \<and> default_hours ''Laptop'' = Some 4
   \<and> default_hours ''Lights (LED)'' = Some 3
   \<and> calc_electricity default_hours = Inr (3.43, 1.4749)"
proof -
  have h: "default_hours ''AC (1.5 Ton)'' = Some 2" "default_hours ''TV (LED)'' = Some 2"
    "default_hours ''Laptop'' = Some 4" "default_hours ''Lights (LED)'' = Some 3"
    by (simp_all add: default_hours_def)
  show ?thesis
    using h calc_electricity_complete [OF h] by simp
qed

text \<open>
  C6 as stated fails: on a dictionary without the air conditioner the function does not
  return the pair summed over the three present appliances; it raises \<^verbatim>\<open>KeyError\<close>.
\<close>

theorem calc_electricity_partial_counterexample:
  "partial_hours ''AC (1.5 Ton)'' = None
   \<and> calc_electricity partial_hours = Inl (KeyError ''AC (1.5 Ton)'')
   \<and> calc_electricity partial_hours
        \<noteq> Inr (1.0 * 0.10 + 2.0 * 0.05 + 10.0 * 0.01, (1.0 * 0.10 + 2.0 * 0.05 + 10.0 * 0.01) * 0.43)"
  by (simp add: calc_electricity_def APPLIANCE_KW_def subscript_def partial_hours_def)

text \<open>
  C6, amended: when the hours dictionary is missing one or more of the four appliance
  names, \<open>calc_electricity\<close> returns no pair: it raises \<^verbatim>\<open>KeyError\<close> for the first missing
  name in the order of the appliance table.
\<close>

theorem calc_electricity_missing_raises:
  assumes "\<exists>a \<in> set appliances. hours a = None"
  shows "\<exists>a. find (\<lambda>a. hours a = None) appliances = Some a
             \<and> calc_electricity hours = Inl (KeyError a)"
  using find_missing [OF assms] calc_electricity_missing by blast

theorem calc_electricity_missing_raises_witness:
  "(\<exists>a \<in> set appliances. partial_hours a = None)
   \<and> find (\<lambda>a. partial_hours a = None) appliances = Some ''AC (1.5 Ton)''
   \<and> calc_electricity partial_hours = Inl (KeyError ''AC (1.5 Ton)'')"
proof -
  have h: "\<exists>a \<in> set appliances. partial_hours a = None"
    by (simp add: appliances_eq partial_hours_def)
  have f: "find (\<lambda>a. partial_hours a = None) appliances = Some ''AC (1.5 Ton)''"
    by (simp add: appliances_eq partial_hours_def)
  show ?thesis
    using h f calc_electricity_missing_raises [OF h] by simp
qed

text \<open>
  C7: \<open>calc_electricity\<close> raises a missing-key error if and only if the dictionary omits
  at least one of the four appliance entries; on a complete dictionary it returns a pair
  of the energy and the energy times 0.43.
\<close>

theorem calc_electricity_fails_iff:
  "((\<exists>a. calc_electricity hours = Inl (KeyError a)) \<longleftrightarrow>
      (hours ''AC (1.5 Ton)'' = None \<or> hours ''TV (LED)'' = None
       \<or> hours ''Laptop'' = None \<or> hours ''Lights (LED)'' = None))
   \<and> ((\<forall>a \<in> set appliances. hours a \<noteq> None) \<longrightarrow>
        (\<exists>kwh. calc_electricity hours = Inr (kwh, kwh * 0.43)))"
proof (cases "\<forall>a \<in> set appliances. hours a \<noteq> None")
  case True
  from calc_electricity_returns [OF True] obtain kwh
    where r: "calc_electricity hours = Inr (kwh, kwh * GRID_FACTOR)" by blast
  from True have "\<not> (hours ''AC (1.5 Ton)'' = None \<or> hours ''TV (LED)'' = None
       \<or> hours ''Laptop'' = None \<or> hours ''Lights (LED)'' = None)"
    by (simp add: appliances_eq)
  with r show ?thesis by (auto simp: GRID_FACTOR_def)
next
  case False
  then have m: "\<exists>a \<in> set appliances. hours a = None" by simp
  from find_missing [OF m] obtain a
    where "find (\<lambda>a. hours a = None) appliances = Some a" by blast
  then have "calc_electricity hours = Inl (KeyError a)"
    by (rule calc_electricity_missing)
  moreover from m have "hours ''AC (1.5 Ton)'' = None \<or> hours ''TV (LED)'' = None
       \<or> hours ''Laptop'' = None \<or> hours ''Lights (LED)'' = None"
    by (simp add: appliances_eq)
  ultimately show ?thesis using False by auto
qed

theorem calc_electricity_fails_iff_witness:
  "default_hours ''AC (1.5 Ton)'' = Some 2
   \<and> default_hours ''TV (LED)'' = Some 2
   \<and> default_hours ''Laptop'' = Some 4
   \<and> default_hours ''Lights (LED)'' = Some 3
   \<and> (\<exists>kwh. calc_electricity default_hours = Inr (kwh, kwh * 0.43))
   \<and> \<not> (\<exists>a. calc_electricity default_hours = Inl (KeyError a))
   \<and> partial_hours ''AC (1.5 Ton)'' = None
   \<and> (\<exists>a. calc_electricity partial_hours = Inl (KeyError a))"
proof -
  have h: "\<forall>a \<in> set appliances. default_hours a \<noteq> None"
    by (simp add: appliances_eq default_hours_def)
  have d: "\<not> (default_hours ''AC (1.5 Ton)'' = None \<or> default_hours ''TV (LED)'' = None
       \<or> default_hours ''Laptop'' = None \<or> default_hours ''Lights (LED)'' = None)"
    by (simp add: default_hours_def)
  have p: "partial_hours ''AC (1.5 Ton)'' = None"
    by (simp add: partial_hours_def)
  have v: "default_hours ''AC (1.5 Ton)'' = Some 2" "default_hours ''TV (LED)'' = Some 2"
    "default_hours ''Laptop'' = Some 4" "default_hours ''Lights (LED)'' = Some 3"
    by (simp_all add: default_hours_def)
  show ?thesis
    using h d p v calc_electricity_fails_iff [of default_hours]
      calc_electricity_fails_iff [of partial_hours]
    by simp
qed

subsection \<open>Diet floor\<close>

lemma calc_diet_values:
  "calc_diet ''High Meat (Beef / Lamb)'' = 8.0"
  "calc_diet ''Mixed (Poultry / Fish)'' = 4.0"
  "calc_diet ''Vegetarian / Vegan (Plant-based)'' = 1.5"
  by (simp_all add: calc_diet_def DIET_FACTORS_def)

lemma calc_diet_floor:
  "choice \<in> set (map fst DIET_FACTORS) \<Longrightarrow> calc_diet choice \<in> {8.0, 4.0, 1.5}"
  by (auto simp: calc_diet_def DIET_FACTORS_def)

text \<open>
  C9: for every diet category of the table (factors 8.0, 4.0 and 1.5, so at least 1.5) and
  all non-negative transport and electricity values, the total is positive, hence never 0,
  and the context equivalents are the quotients: the branch for a total of at most 0 is not
  taken. The guard is in the code all the same: any inputs \<open>x\<close>, \<open>y\<close>, \<open>z\<close> whose sum is
  at most 0 give equivalents of 0.
\<close>

theorem total_never_zero:
  assumes "choice \<in> set (map fst DIET_FACTORS)" and "0 \<le> tr" and "0 \<le> el"
  shows "calc_diet choice \<in> {8.0, 4.0, 1.5}
     \<and> 1.5 \<le> calc_diet choice
     \<and> total (calc_totals tr el (calc_diet choice)) \<noteq> 0
     \<and> 0 < total (calc_totals tr el (calc_diet choice))
     \<and> trees (calc_totals tr el (calc_diet choice)) = total (calc_totals tr el (calc_diet choice)) / 0.057
     \<and> phones (calc_totals tr el (calc_diet choice)) = total (calc_totals tr el (calc_diet choice)) / 0.008
     \<and> km_eq (calc_totals tr el (calc_diet choice)) = total (calc_totals tr el (calc_diet choice)) / 0.170
     \<and> (x + y + z \<le> 0 \<longrightarrow>
          trees (calc_totals x y z) = 0 \<and> phones (calc_totals x y z) = 0 \<and> km_eq (calc_totals x y z) = 0)"
proof -
  from calc_diet_floor [OF assms(1)] have v: "calc_diet choice \<in> {8.0, 4.0, 1.5}" .
  then have f: "1.5 \<le> calc_diet choice" by auto
  with assms have pos: "0 < tr + el + calc_diet choice" by linarith
  show ?thesis
    using v f pos by (simp add: total_calc_totals equivalents_calc_totals)
qed

theorem total_never_zero_witness:
  "''Vegetarian / Vegan (Plant-based)'' \<in> set (map fst DIET_FACTORS)
   \<and> (0::real) \<le> 0
   \<and> calc_diet ''Vegetarian / Vegan (Plant-based)'' = 1.5
   \<and> total (calc_totals 0 0 (calc_diet ''Vegetarian / Vegan (Plant-based)'')) = 1.5
   \<and> trees (calc_totals 0 0 (calc_diet ''Vegetarian / Vegan (Plant-based)'')) = 1.5 / 0.057
   \<and> (- 2 + 0 + 1.5 \<le> (0::real))
   \<and> trees (calc_totals (- 2) 0 1.5) = 0
   \<and> phones (calc_totals (- 2) 0 1.5) = 0
   \<and> km_eq (calc_totals (- 2) 0 1.5) = 0"
proof -
  have c: "''Vegetarian / Vegan (Plant-based)'' \<in> set (map fst DIET_FACTORS)"
    by (simp add: DIET_FACTORS_def)
  have z: "(0::real) \<le> 0" by simp
  show ?thesis
    using c total_never_zero [OF c z z, of "- 2" 0 "1.5"]
    by (simp add: calc_diet_values total_calc_totals)
qed

subsection \<open>Personalised tip\<close>

text \<open>
  C10: the dominant field of every result of \<open>calc_totals\<close> is one of the strings
  Transport, Electricity and Diet; \<open>smart_tip\<close> returns a pair of icon and text on each
  of the three, hence on the dominant field of every result; on any other string it
  returns nothing.
\<close>

theorem smart_tip_defined_on_dominant:
  "dominant (calc_totals tr el di) \<in> {''Transport'', ''Electricity'', ''Diet''}
   \<and> (\<exists>icon txt. smart_tip ''Transport'' = Some (icon, txt))
   \<and> (\<exists>icon txt. smart_tip ''Electricity'' = Some (icon, txt))
   \<and> (\<exists>icon txt. smart_tip ''Diet'' = Some (icon, txt))
   \<and> (\<exists>icon txt. smart_tip (dominant (calc_totals tr el di)) = Some (icon, txt))
   \<and> (s \<notin> {''Transport'', ''Electricity'', ''Diet''} \<longrightarrow> smart_tip s = None)"
proof -
  have d: "dominant (calc_totals tr el di) \<in> {''Transport'', ''Electricity'', ''Diet''}"
    by (simp add: dominant_calc_totals dominant_of_def)
  have t: "\<exists>icon txt. smart_tip ''Transport'' = Some (icon, txt)"
    "\<exists>icon txt. smart_tip ''Electricity'' = Some (icon, txt)"
    "\<exists>icon txt. smart_tip ''Diet'' = Some (icon, txt)"
    by (simp_all add: smart_tip_def tips_def)
  from d t have dt: "\<exists>icon txt. smart_tip (dominant (calc_totals tr el di)) = Some (icon, txt)"
    by auto
  have n: "s \<notin> {''Transport'', ''Electricity'', ''Diet''} \<longrightarrow> smart_tip s = None"
    by (simp add: smart_tip_def tips_def)
  from d t dt n show ?thesis by blast
qed

theorem smart_tip_defined_on_dominant_witness:
  "''Food'' \<notin> {''Transport'', ''Electricity'', ''Diet''}
   \<and> smart_tip ''Food'' = None
   \<and> dominant (calc_totals 1 3 2) = ''Electricity''
   \<and> (\<exists>icon txt. smart_tip (dominant (calc_totals 1 3 2)) = Some (icon, txt))"
proof -
  have f: "''Food'' \<notin> {''Transport'', ''Electricity'', ''Diet''}" by simp
  have e: "dominant (calc_totals 1 3 2) = ''Electricity''"
    by (simp add: dominant_calc_totals dominant_of_def)
  show ?thesis
    using f e smart_tip_defined_on_dominant [of 1 3 2 "''Food''"] by simp
qed

end
